theory Spec2Isabelle
  imports Main
begin

section \<open>HTTP requests and the response writer\<close>

text \<open>
  The part of \<^verbatim>\<open>*http.Request\<close> that \<^verbatim>\<open>main.go\<close> and the controller look at: the
  method, \<^verbatim>\<open>r.URL.Path\<close>, and the \<^verbatim>\<open>name\<close> field of the JSON body (\<open>None\<close> when the
  body carries no such field).
\<close>

record Request =
  Method :: string
  Path :: string
  BodyName :: "string option"

text \<open>What a handler writes to the body: plain text, one record, or a list of records.\<close>

datatype Payload =
    Text string
  | Project int "string option"
  | Projects "(int \<times> string option) list"

text \<open>
  The state of an \<^verbatim>\<open>http.ResponseWriter\<close>: the header map, the status code once
  \<^verbatim>\<open>WriteHeader\<close> has been called (\<open>None\<close> before), and what has been written.
\<close>

record ResponseWriter =
  Header :: "string \<rightharpoonup> string"
  Status :: "nat option"
  Written :: "Payload list"

abbreviation StatusOK :: nat where "StatusOK \<equiv> 200"
abbreviation StatusCreated :: nat where "StatusCreated \<equiv> 201"
abbreviation StatusBadRequest :: nat where "StatusBadRequest \<equiv> 400"
abbreviation StatusNotFound :: nat where "StatusNotFound \<equiv> 404"
abbreviation StatusMethodNotAllowed :: nat where "StatusMethodNotAllowed \<equiv> 405"

definition newResponseWriter :: ResponseWriter where
  "newResponseWriter = \<lparr>Header = Map.empty, Status = None, Written = []\<rparr>"

definition Header_Set :: "string \<Rightarrow> string \<Rightarrow> ResponseWriter \<Rightarrow> ResponseWriter" where
  "Header_Set k v w = w\<lparr>Header := (Header w)(k \<mapsto> v)\<rparr>"

text \<open>Only the first \<^verbatim>\<open>WriteHeader\<close> of a response takes effect.\<close>

definition WriteHeader :: "nat \<Rightarrow> ResponseWriter \<Rightarrow> ResponseWriter" where
  "WriteHeader code w = (if Status w = None then w\<lparr>Status := Some code\<rparr> else w)"

text \<open>A write before any \<^verbatim>\<open>WriteHeader\<close> sends status 200 first.\<close>

definition Write :: "Payload \<Rightarrow> ResponseWriter \<Rightarrow> ResponseWriter" where
  "Write p w = (let w' = WriteHeader StatusOK w in w'\<lparr>Written := Written w' @ [p]\<rparr>)"

text \<open>
  \<^verbatim>\<open>http.Error(w, msg, code)\<close> of net/http: a plain-text content type, the status, and
  the message followed by a newline.
\<close>

definition http_Error :: "ResponseWriter \<Rightarrow> string \<Rightarrow> nat \<Rightarrow> ResponseWriter" where
  "http_Error w msg code =
     Write (Text (msg @ [CHR 0x0A]))
       (WriteHeader code
         (Header_Set ''X-Content-Type-Options'' ''nosniff''
           (Header_Set ''Content-Type'' ''text/plain; charset=utf-8'' w)))"

text \<open>\<^verbatim>\<open>http.NotFound(w, r)\<close> of net/http.\<close>

definition http_NotFound :: "ResponseWriter \<Rightarrow> Request \<Rightarrow> ResponseWriter" where
  "http_NotFound w r = http_Error w ''404 page not found'' StatusNotFound"

section \<open>Library functions on strings\<close>

definition HasPrefix :: "string \<Rightarrow> string \<Rightarrow> bool" where
  "HasPrefix s p = (length p \<le> length s \<and> take (length p) s = p)"

definition TrimPrefix :: "string \<Rightarrow> string \<Rightarrow> string" where
  "TrimPrefix s p = (if HasPrefix s p then drop (length p) s else s)"

text \<open>
  \<^verbatim>\<open>strconv.Atoi\<close> of the Go standard library, for a 64-bit \<^verbatim>\<open>int\<close>: an optional
  sign \<^verbatim>\<open>+\<close> or \<^verbatim>\<open>-\<close>, then one or more decimal digits and nothing else, the value within
  \<open>-2^63 .. 2^63 - 1\<close>. \<open>None\<close> stands for a non-nil error (syntax or range); the router
  only tests \<^verbatim>\<open>err != nil\<close>.
\<close>

definition isDigit :: "char \<Rightarrow> bool" where
  "isDigit c = (48 \<le> (of_char c :: int) \<and> (of_char c :: int) \<le> 57)"

definition digitsValue :: "string \<Rightarrow> int" where
  "digitsValue ds = foldl (\<lambda>n c. n * 10 + (of_char c - 48)) 0 ds"

definition Atoi :: "string \<Rightarrow> int option" where
  "Atoi s =
     (case s of
        [] \<Rightarrow> None
      | c # cs \<Rightarrow>
          (let neg = (c = CHR ''-'');
               ds = (if c = CHR ''-'' \<or> c = CHR ''+'' then cs else s)
           in if ds = [] then None
              else if \<not> list_all isDigit ds then None
              else (let un = digitsValue ds
                    in if \<not> neg \<and> 2 ^ 63 \<le> un then None
                       else if neg \<and> 2 ^ 63 < un then None
                       else Some (if neg then - un else un))))"

section \<open>The controller interface\<close>

text \<open>
  \<^verbatim>\<open>main.go\<close> calls five methods of the controller built by
  \<^verbatim>\<open>controllers.NewTestController(db)\<close>. The router is modelled over any implementation
  of them; \<open>'db\<close> is the state of the backing store, which a method may read and change.
\<close>

record 'db TestController =
  GetAll :: "ResponseWriter \<Rightarrow> Request \<Rightarrow> 'db \<Rightarrow> ResponseWriter \<times> 'db"
  Create :: "ResponseWriter \<Rightarrow> Request \<Rightarrow> 'db \<Rightarrow> ResponseWriter \<times> 'db"
  GetById :: "ResponseWriter \<Rightarrow> Request \<Rightarrow> int \<Rightarrow> 'db \<Rightarrow> ResponseWriter \<times> 'db"
  Update :: "ResponseWriter \<Rightarrow> Request \<Rightarrow> int \<Rightarrow> 'db \<Rightarrow> ResponseWriter \<times> 'db"
  Delete :: "ResponseWriter \<Rightarrow> Request \<Rightarrow> int \<Rightarrow> 'db \<Rightarrow> ResponseWriter \<times> 'db"

section \<open>The CORS middleware and the router of main.go\<close>

definition corsMiddleware ::
  "(ResponseWriter \<Rightarrow> Request \<Rightarrow> 'db \<Rightarrow> ResponseWriter \<times> 'db) \<Rightarrow>
   ResponseWriter \<Rightarrow> Request \<Rightarrow> 'db \<Rightarrow> ResponseWriter \<times> 'db" where
  "corsMiddleware next w r db =
     (let w1 = Header_Set ''Access-Control-Allow-Origin'' ''*'' w;
          w2 = Header_Set ''Access-Control-Allow-Methods'' ''GET, POST, PUT, DELETE, OPTIONS'' w1;
          w3 = Header_Set ''Access-Control-Allow-Headers'' ''Content-Type'' w2
      in if Method r = ''OPTIONS'' then (WriteHeader StatusOK w3, db)
         else next w3 r db)"

definition apiTestHandler ::
  "'db TestController \<Rightarrow> ResponseWriter \<Rightarrow> Request \<Rightarrow> 'db \<Rightarrow> ResponseWriter \<times> 'db" where
  "apiTestHandler controller w r db =
     (let path = Path r in
      if path = ''/api/test'' \<or> path = ''/api/test/'' then
        (if Method r = ''GET'' then GetAll controller w r db
         else if Method r = ''POST'' then Create controller w r db
         else (http_Error w ''Method not allowed'' StatusMethodNotAllowed, db))
      else if HasPrefix path ''/api/test/'' then
        (let idStr = TrimPrefix path ''/api/test/'' in
         if idStr = [] then
           (if Method r = ''GET'' then GetAll controller w r db
            else if Method r = ''POST'' then Create controller w r db
            else (http_Error w ''Method not allowed'' StatusMethodNotAllowed, db))
         else
           (case Atoi idStr of
              None \<Rightarrow> (http_Error w ''Invalid ID'' StatusBadRequest, db)
            | Some id' \<Rightarrow>
                (if Method r = ''GET'' then GetById controller w r id' db
                 else if Method r = ''PUT'' then Update controller w r id' db
                 else if Method r = ''DELETE'' then Delete controller w r id' db
                 else (http_Error w ''Method not allowed'' StatusMethodNotAllowed, db))))
      else (http_NotFound w r, db))"

section \<open>The resource-access component\<close>

text \<open>
  The package \<^verbatim>\<open>backend/Controllers\<close> is imported by \<^verbatim>\<open>main.go\<close>; its operations
  are modelled here from the specification of the repository: a table of records with an
  integer identifier and a name, read and written by single statements.
\<close>

text \<open>
  Modelled from the spec: the table behind the controller (package
  \<^verbatim>\<open>backend/Controllers\<close> and its database). A row is an identifier and a name column
  that the table itself would allow to be null (\<open>None\<close>); \<open>nextId\<close> is the sequence the
  server draws generated identifiers from.
\<close>

record Store =
  rows :: "(int \<times> string option) list"
  nextId :: int

text \<open>Modelled from the spec: the table before any record has been created.\<close>

definition emptyStore :: Store where
  "emptyStore = \<lparr>rows = [], nextId = 1\<rparr>"

definition ids :: "Store \<Rightarrow> int set" where
  "ids db = fst ` set (rows db)"

text \<open>The name stored under an identifier, if a row with that identifier exists.\<close>

definition lookup :: "Store \<Rightarrow> int \<Rightarrow> string option option" where
  "lookup db i = map_of (rows db) i"

text \<open>Identifiers are unique, and each was drawn from the sequence.\<close>

definition storeOK :: "Store \<Rightarrow> bool" where
  "storeOK db = (distinct (map fst (rows db)) \<and> list_all (\<lambda>row. fst row < nextId db) (rows db))"

text \<open>The invariant of the data model: every stored record has a non-null name.\<close>

definition namesNonNull :: "Store \<Rightarrow> bool" where
  "namesNonNull db = list_all (\<lambda>row. snd row \<noteq> None) (rows db)"

text \<open>
  Modelled from the spec: how the operations of \<^verbatim>\<open>backend/Controllers\<close> answer with a
  JSON body: the content type, the status, then the body.
\<close>

definition writeJSON :: "nat \<Rightarrow> Payload \<Rightarrow> ResponseWriter \<Rightarrow> ResponseWriter" where
  "writeJSON code p w =
     Write p (WriteHeader code (Header_Set ''Content-Type'' ''application/json'' w))"

text \<open>
  Modelled from the spec: list-all of \<^verbatim>\<open>backend/Controllers\<close>, "returns all records".
\<close>

definition ctl_GetAll :: "ResponseWriter \<Rightarrow> Request \<Rightarrow> Store \<Rightarrow> ResponseWriter \<times> Store" where
  "ctl_GetAll w r db = (writeJSON StatusOK (Projects (rows db)) w, db)"

text \<open>
  Modelled from the spec: get-by-id of \<^verbatim>\<open>backend/Controllers\<close>, "returns record or a
  not-found signal"; resource absent is 404.
\<close>

definition ctl_GetById ::
  "ResponseWriter \<Rightarrow> Request \<Rightarrow> int \<Rightarrow> Store \<Rightarrow> ResponseWriter \<times> Store" where
  "ctl_GetById w r i db =
     (case find (\<lambda>row. fst row = i) (rows db) of
        None \<Rightarrow> (http_Error w ''Project not found'' StatusNotFound, db)
      | Some row \<Rightarrow> (writeJSON StatusOK (Project (fst row) (snd row)) w, db))"

text \<open>
  Modelled from the spec: create of \<^verbatim>\<open>backend/Controllers\<close>, "validates required name,
  inserts, returns generated identifier"; a missing or empty name is 400.
\<close>

definition ctl_Create :: "ResponseWriter \<Rightarrow> Request \<Rightarrow> Store \<Rightarrow> ResponseWriter \<times> Store" where
  "ctl_Create w r db =
     (case BodyName r of
        None \<Rightarrow> (http_Error w ''Name is required'' StatusBadRequest, db)
      | Some name \<Rightarrow>
          if name = [] then (http_Error w ''Name is required'' StatusBadRequest, db)
          else (let i = nextId db
                in (writeJSON StatusCreated (Project i (Some name)) w,
                    db\<lparr>rows := rows db @ [(i, Some name)], nextId := i + 1\<rparr>)))"

text \<open>
  Modelled from the spec: update of \<^verbatim>\<open>backend/Controllers\<close>, "writes if record exists,
  otherwise not-found". The name written is the submitted one; a body without a name
  field writes the empty string.
\<close>

definition ctl_Update ::
  "ResponseWriter \<Rightarrow> Request \<Rightarrow> int \<Rightarrow> Store \<Rightarrow> ResponseWriter \<times> Store" where
  "ctl_Update w r i db =
     (let name = (case BodyName r of None \<Rightarrow> [] | Some n \<Rightarrow> n) in
      if list_ex (\<lambda>row. fst row = i) (rows db) then
        (writeJSON StatusOK (Project i (Some name)) w,
         db\<lparr>rows := map (\<lambda>row. if fst row = i then (i, Some name) else row) (rows db)\<rparr>)
      else (http_Error w ''Project not found'' StatusNotFound, db))"

text \<open>
  Modelled from the spec: delete of \<^verbatim>\<open>backend/Controllers\<close>, "removes if exists,
  otherwise not-found".
\<close>

definition ctl_Delete ::
  "ResponseWriter \<Rightarrow> Request \<Rightarrow> int \<Rightarrow> Store \<Rightarrow> ResponseWriter \<times> Store" where
  "ctl_Delete w r i db =
     (if list_ex (\<lambda>row. fst row = i) (rows db) then
        (writeJSON StatusOK (Text ''Deleted successfully'') w,
         db\<lparr>rows := filter (\<lambda>row. fst row \<noteq> i) (rows db)\<rparr>)
      else (http_Error w ''Project not found'' StatusNotFound, db))"

text \<open>
  Modelled from the spec: the controller value that \<^verbatim>\<open>controllers.NewTestController\<close>
  of \<^verbatim>\<open>backend/Controllers\<close> returns, as the five operations above.
\<close>

definition NewTestController :: "Store TestController" where
  "NewTestController =
     \<lparr>GetAll = ctl_GetAll, Create = ctl_Create, GetById = ctl_GetById,
      Update = ctl_Update, Delete = ctl_Delete\<rparr>"

text \<open>
  \<^verbatim>\<open>main\<close> registers \<^verbatim>\<open>apiTestHandler\<close> with the \<^verbatim>\<open>http.ServeMux\<close> under both
  patterns \<^verbatim>\<open>/api/test\<close> and \<^verbatim>\<open>/api/test/\<close>, and serves the mux behind
  \<^verbatim>\<open>corsMiddleware\<close>. For a request that the mux hands to \<^verbatim>\<open>apiTestHandler\<close>, what is
  served is the router behind the middleware.
\<close>

definition handler ::
  "'db TestController \<Rightarrow> ResponseWriter \<Rightarrow> Request \<Rightarrow> 'db \<Rightarrow> ResponseWriter \<times> 'db" where
  "handler controller = corsMiddleware (apiTestHandler controller)"

text \<open>
  Requests served one after the other, each on a writer of its own, starting from a
  given store; the result is the store after the last one.
\<close>

fun serveAll :: "Request list \<Rightarrow> Store \<Rightarrow> Store" where
  "serveAll [] db = db"
| "serveAll (r # rs) db =
     serveAll rs (snd (handler NewTestController newResponseWriter r db))"

section \<open>Basic facts about the response writer and the router\<close>

lemma Status_WriteHeader: "Status w = None \<Longrightarrow> Status (WriteHeader code w) = Some code"
  by (simp add: WriteHeader_def)

lemma Status_http_Error: "Status w = None \<Longrightarrow> Status (http_Error w msg code) = Some code"
  by (simp add: http_Error_def Write_def WriteHeader_def Header_Set_def Let_def)

lemma Status_writeJSON: "Status w = None \<Longrightarrow> Status (writeJSON code p w) = Some code"
  by (simp add: writeJSON_def Write_def WriteHeader_def Header_Set_def Let_def)

lemma Status_Header_Set: "Status (Header_Set k v w) = Status w"
  by (simp add: Header_Set_def)

lemma Written_Header_Set: "Written (Header_Set k v w) = Written w"
  by (simp add: Header_Set_def)

lemma Written_WriteHeader: "Written (WriteHeader code w) = Written w"
  by (simp add: WriteHeader_def)

lemma Written_http_Error:
  "Written (http_Error w msg code) = Written w @ [Text (msg @ [CHR 0x0A])]"
  by (simp add: http_Error_def Write_def WriteHeader_def Header_Set_def Let_def)

lemma Written_writeJSON: "Written (writeJSON code p w) = Written w @ [p]"
  by (simp add: writeJSON_def Write_def WriteHeader_def Header_Set_def Let_def)

lemma Atoi_Nil: "Atoi [] = None"
  by (simp add: Atoi_def)

lemma route_id_segment:
  assumes "Path r = ''/api/test/'' @ seg" and "seg \<noteq> []"
  shows "apiTestHandler controller w r db =
     (case Atoi seg of
        None \<Rightarrow> (http_Error w ''Invalid ID'' StatusBadRequest, db)
      | Some n \<Rightarrow>
          (if Method r = ''GET'' then GetById controller w r n db
           else if Method r = ''PUT'' then Update controller w r n db
           else if Method r = ''DELETE'' then Delete controller w r n db
           else (http_Error w ''Method not allowed'' StatusMethodNotAllowed, db)))"
  using assms
  by (simp add: apiTestHandler_def Let_def HasPrefix_def TrimPrefix_def)

lemma route_collection:
  assumes "Path r = ''/api/test'' \<or> Path r = ''/api/test/''"
  shows "apiTestHandler controller w r db =
     (if Method r = ''GET'' then GetAll controller w r db
      else if Method r = ''POST'' then Create controller w r db
      else (http_Error w ''Method not allowed'' StatusMethodNotAllowed, db))"
  using assms
  by (auto simp add: apiTestHandler_def Let_def)

lemma route_integer_segment:
  assumes "Path r = ''/api/test/'' @ seg" and "Atoi seg = Some n"
  shows "apiTestHandler controller w r db =
           (if Method r = ''GET'' then GetById controller w r n db
            else if Method r = ''PUT'' then Update controller w r n db
            else if Method r = ''DELETE'' then Delete controller w r n db
            else (http_Error w ''Method not allowed'' StatusMethodNotAllowed, db))"
proof -
  from assms(2) have "seg \<noteq> []"
    by (auto simp add: Atoi_Nil)
  with assms show ?thesis
    by (simp add: route_id_segment)
qed

section \<open>Facts about the store and its operations\<close>

lemma list_ex_ids: "list_ex (\<lambda>row. fst row = i) (rows db) \<longleftrightarrow> i \<in> ids db"
  by (auto simp add: ids_def list_ex_iff)

lemma find_absent: "i \<notin> ids db \<Longrightarrow> find (\<lambda>row. fst row = i) (rows db) = None"
  by (force simp add: ids_def find_None_iff)

lemma find_snoc_absent:
  "\<forall>x \<in> set xs. \<not> P x \<Longrightarrow> P y \<Longrightarrow> find P (xs @ [y]) = Some y"
  by (induction xs) auto

lemma storeOK_fresh: "storeOK db \<Longrightarrow> nextId db \<notin> ids db"
  by (auto simp add: storeOK_def ids_def list_all_iff)

lemma storeOK_emptyStore: "storeOK emptyStore"
  by (simp add: storeOK_def emptyStore_def)

lemma namesNonNull_emptyStore: "namesNonNull emptyStore"
  by (simp add: namesNonNull_def emptyStore_def)

lemma storeOK_GetAll: "storeOK db \<Longrightarrow> storeOK (snd (ctl_GetAll w r db))"
  by (simp add: ctl_GetAll_def)

lemma storeOK_GetById: "storeOK db \<Longrightarrow> storeOK (snd (ctl_GetById w r i db))"
  by (simp add: ctl_GetById_def split: option.splits)

lemma storeOK_Create: "storeOK db \<Longrightarrow> storeOK (snd (ctl_Create w r db))"
  by (auto simp add: ctl_Create_def storeOK_def Let_def list_all_iff split: option.splits)

lemma map_fst_update:
  "map fst (map (\<lambda>row. if fst row = i then (i, v) else row) xs) = map fst xs"
  by (induction xs) auto

lemma map_fst_comp_update:
  "map (fst \<circ> (\<lambda>row. if fst row = i then (i, v) else row)) xs = map fst xs"
  by (induction xs) auto

lemma storeOK_Update: "storeOK db \<Longrightarrow> storeOK (snd (ctl_Update w r i db))"
  by (auto simp add: ctl_Update_def storeOK_def Let_def list_all_iff map_fst_comp_update)

lemma storeOK_Delete: "storeOK db \<Longrightarrow> storeOK (snd (ctl_Delete w r i db))"
  by (auto simp add: ctl_Delete_def storeOK_def list_all_iff distinct_map_filter)

lemma nextId_GetAll: "nextId (snd (ctl_GetAll w r db)) = nextId db"
  by (simp add: ctl_GetAll_def)

lemma nextId_GetById: "nextId (snd (ctl_GetById w r i db)) = nextId db"
  by (simp add: ctl_GetById_def split: option.splits)

lemma nextId_Create: "nextId db \<le> nextId (snd (ctl_Create w r db))"
  by (simp add: ctl_Create_def Let_def split: option.splits)

lemma nextId_Update: "nextId (snd (ctl_Update w r i db)) = nextId db"
  by (simp add: ctl_Update_def Let_def)

lemma nextId_Delete: "nextId (snd (ctl_Delete w r i db)) = nextId db"
  by (simp add: ctl_Delete_def)

lemma filter_other_update:
  "filter (\<lambda>row. fst row \<noteq> i) (map (\<lambda>row. if fst row = i then (i, v) else row) xs)
     = filter (\<lambda>row. fst row \<noteq> i) xs"
  by (induction xs) auto

lemma map_of_update_other:
  "j \<noteq> i \<Longrightarrow> map_of (map (\<lambda>row. if fst row = i then (i, v) else row) xs) j = map_of xs j"
  by (induction xs) auto

lemma map_of_update_same:
  "i \<in> fst ` set xs \<Longrightarrow> map_of (map (\<lambda>row. if fst row = i then (i, v) else row) xs) i = Some v"
  by (induction xs) auto

lemma storeOK_handler: "storeOK db \<Longrightarrow> storeOK (snd (handler NewTestController w r db))"
  by (simp add: handler_def corsMiddleware_def apiTestHandler_def NewTestController_def Let_def
      storeOK_GetAll storeOK_GetById storeOK_Create storeOK_Update storeOK_Delete
      http_NotFound_def split: option.splits)

lemma namesNonNull_GetAll: "namesNonNull db \<Longrightarrow> namesNonNull (snd (ctl_GetAll w r db))"
  by (simp add: ctl_GetAll_def)

lemma namesNonNull_GetById: "namesNonNull db \<Longrightarrow> namesNonNull (snd (ctl_GetById w r i db))"
  by (simp add: ctl_GetById_def split: option.splits)

lemma namesNonNull_Create: "namesNonNull db \<Longrightarrow> namesNonNull (snd (ctl_Create w r db))"
  by (simp add: ctl_Create_def namesNonNull_def Let_def split: option.splits)

lemma namesNonNull_Update: "namesNonNull db \<Longrightarrow> namesNonNull (snd (ctl_Update w r i db))"
  by (auto simp add: ctl_Update_def namesNonNull_def Let_def list_all_iff)

lemma namesNonNull_Delete: "namesNonNull db \<Longrightarrow> namesNonNull (snd (ctl_Delete w r i db))"
  by (auto simp add: ctl_Delete_def namesNonNull_def list_all_iff)

lemma namesNonNull_handler:
  "namesNonNull db \<Longrightarrow> namesNonNull (snd (handler NewTestController w r db))"
  by (simp add: handler_def corsMiddleware_def apiTestHandler_def NewTestController_def Let_def
      namesNonNull_GetAll namesNonNull_GetById namesNonNull_Create namesNonNull_Update
      namesNonNull_Delete http_NotFound_def split: option.splits)

text \<open>
  Every store that a sequence of requests produces from the empty table has unique
  identifiers below the sequence, and only non-null names.
\<close>

lemma storeOK_serveAll: "storeOK db \<Longrightarrow> storeOK (serveAll rs db)"
  by (induction rs arbitrary: db) (simp_all add: storeOK_handler)

lemma namesNonNull_serveAll: "namesNonNull db \<Longrightarrow> namesNonNull (serveAll rs db)"
  by (induction rs arbitrary: db) (simp_all add: namesNonNull_handler)

lemma storeOK_reachable: "storeOK (serveAll rs emptyStore)"
  by (simp add: storeOK_serveAll storeOK_emptyStore)

lemma namesNonNull_reachable: "namesNonNull (serveAll rs emptyStore)"
  by (simp add: namesNonNull_serveAll namesNonNull_emptyStore)

section \<open>Properties of the router and the middleware\<close>

text \<open>
  Claim C6. A request whose path is \<^verbatim>\<open>/api/test/\<close> followed by a non-empty segment
  that \<^verbatim>\<open>strconv.Atoi\<close> rejects is answered by the router with
  \<^verbatim>\<open>http.Error(w, "Invalid ID", 400)\<close>, whatever the method. The store is returned as
  it was and the answer is the same for every controller: no operation of the controller
  takes part in it. On a writer without a status yet, the status is 400.
\<close>

theorem non_integer_segment_bad_request:
  assumes "Path r = ''/api/test/'' @ seg" and "seg \<noteq> []" and "Atoi seg = None"
  shows "apiTestHandler controller w r db = (http_Error w ''Invalid ID'' StatusBadRequest, db)
       \<and> apiTestHandler controller' w r db = apiTestHandler controller w r db
       \<and> (Status w = None \<longrightarrow>
            Status (fst (apiTestHandler controller w r db)) = Some StatusBadRequest)"
  using assms by (simp add: route_id_segment Status_http_Error)

theorem non_integer_segment_bad_request_witness:
  "apiTestHandler NewTestController newResponseWriter
     \<lparr>Method = ''DELETE'', Path = ''/api/test/abc'', BodyName = None\<rparr>
     \<lparr>rows = [(1, Some ''a'')], nextId = 2\<rparr>
   = (http_Error newResponseWriter ''Invalid ID'' StatusBadRequest,
      \<lparr>rows = [(1, Some ''a'')], nextId = 2\<rparr>)
   \<and> Status (fst (apiTestHandler NewTestController newResponseWriter
     \<lparr>Method = ''DELETE'', Path = ''/api/test/abc'', BodyName = None\<rparr>
     \<lparr>rows = [(1, Some ''a'')], nextId = 2\<rparr>)) = Some StatusBadRequest"
proof -
  have p: "Path \<lparr>Method = ''DELETE'', Path = ''/api/test/abc'', BodyName = None\<rparr>
             = ''/api/test/'' @ ''abc''"
    by simp
  have s: "''abc'' \<noteq> []" by simp
  have a: "Atoi ''abc'' = None"
    by (simp add: Atoi_def isDigit_def)
  have f: "Status newResponseWriter = None"
    by (simp add: newResponseWriter_def)
  show ?thesis
    using non_integer_segment_bad_request [OF p s a, of NewTestController newResponseWriter
        "\<lparr>rows = [(1, Some ''a'')], nextId = 2\<rparr>" NewTestController] f
    by (simp add: Status_http_Error)
qed

text \<open>
  Claim C7 as stated fails for OPTIONS: it is neither GET nor POST, the path
  \<^verbatim>\<open>/api/test\<close> is matched, and the served response has status 200, not 405.
\<close>

theorem options_on_collection_counterexample:
  "Method \<lparr>Method = ''OPTIONS'', Path = ''/api/test'', BodyName = None\<rparr> \<noteq> ''GET''
   \<and> Method \<lparr>Method = ''OPTIONS'', Path = ''/api/test'', BodyName = None\<rparr> \<noteq> ''POST''
   \<and> Status (fst (handler NewTestController newResponseWriter
         \<lparr>Method = ''OPTIONS'', Path = ''/api/test'', BodyName = None\<rparr> emptyStore))
       = Some StatusOK
   \<and> Status (fst (handler NewTestController newResponseWriter
         \<lparr>Method = ''OPTIONS'', Path = ''/api/test'', BodyName = None\<rparr> emptyStore))
       \<noteq> Some StatusMethodNotAllowed"
  by (simp add: handler_def corsMiddleware_def Let_def WriteHeader_def Header_Set_def
      newResponseWriter_def)

text \<open>
  Claim C7, amended. On a matched path (\<^verbatim>\<open>/api/test\<close>, \<^verbatim>\<open>/api/test/\<close>, or
  \<^verbatim>\<open>/api/test/\<close> followed by an integer) with a method the router has no case for, the
  router itself answers 405 and leaves the store alone. Served behind the CORS
  middleware, the response status is 405 for every such method except OPTIONS; an
  OPTIONS request is answered with 200 by the middleware and never reaches the router.
\<close>

theorem unrecognized_method:
  assumes "((Path r = ''/api/test'' \<or> Path r = ''/api/test/'')
              \<and> Method r \<noteq> ''GET'' \<and> Method r \<noteq> ''POST'')
         \<or> ((\<exists>seg n. Path r = ''/api/test/'' @ seg \<and> Atoi seg = Some n)
              \<and> Method r \<noteq> ''GET'' \<and> Method r \<noteq> ''PUT'' \<and> Method r \<noteq> ''DELETE'')"
    and "Status w = None"
  shows "Status (fst (apiTestHandler controller w r db)) = Some StatusMethodNotAllowed
       \<and> snd (apiTestHandler controller w r db) = db
       \<and> (Method r \<noteq> ''OPTIONS'' \<longrightarrow>
            Status (fst (handler controller w r db)) = Some StatusMethodNotAllowed
            \<and> snd (handler controller w r db) = db)
       \<and> (Method r = ''OPTIONS'' \<longrightarrow>
            Status (fst (handler controller w r db)) = Some StatusOK
            \<and> snd (handler controller w r db) = db)"
proof -
  have route: "apiTestHandler controller w' r db
                 = (http_Error w' ''Method not allowed'' StatusMethodNotAllowed, db)" for w'
    using assms(1) by (auto simp add: route_collection route_integer_segment)
  have direct: "Status (fst (apiTestHandler controller w r db)) = Some StatusMethodNotAllowed
       \<and> snd (apiTestHandler controller w r db) = db"
    using assms(2) by (simp add: route Status_http_Error)
  have served: "Method r \<noteq> ''OPTIONS'' \<longrightarrow>
            Status (fst (handler controller w r db)) = Some StatusMethodNotAllowed
            \<and> snd (handler controller w r db) = db"
    using assms(2)
    by (simp add: handler_def corsMiddleware_def Let_def route Status_http_Error
        Status_Header_Set)
  have options: "Method r = ''OPTIONS'' \<longrightarrow>
            Status (fst (handler controller w r db)) = Some StatusOK
            \<and> snd (handler controller w r db) = db"
    using assms(2)
    by (simp add: handler_def corsMiddleware_def Let_def Status_WriteHeader Status_Header_Set)
  from direct served options show ?thesis
    by blast
qed

theorem unrecognized_method_witness:
  "Status (fst (handler NewTestController newResponseWriter
      \<lparr>Method = ''PATCH'', Path = ''/api/test/12'', BodyName = Some ''x''\<rparr>
      \<lparr>rows = [(12, Some ''a'')], nextId = 13\<rparr>)) = Some StatusMethodNotAllowed
   \<and> snd (handler NewTestController newResponseWriter
      \<lparr>Method = ''PATCH'', Path = ''/api/test/12'', BodyName = Some ''x''\<rparr>
      \<lparr>rows = [(12, Some ''a'')], nextId = 13\<rparr>) = \<lparr>rows = [(12, Some ''a'')], nextId = 13\<rparr>"
proof -
  have a: "Atoi ''12'' = Some 12"
    by (simp add: Atoi_def isDigit_def digitsValue_def)
  have h: "((Path \<lparr>Method = ''PATCH'', Path = ''/api/test/12'', BodyName = Some ''x''\<rparr> = ''/api/test''
             \<or> Path \<lparr>Method = ''PATCH'', Path = ''/api/test/12'', BodyName = Some ''x''\<rparr> = ''/api/test/'')
              \<and> Method \<lparr>Method = ''PATCH'', Path = ''/api/test/12'', BodyName = Some ''x''\<rparr> \<noteq> ''GET''
              \<and> Method \<lparr>Method = ''PATCH'', Path = ''/api/test/12'', BodyName = Some ''x''\<rparr> \<noteq> ''POST'')
         \<or> ((\<exists>seg n. Path \<lparr>Method = ''PATCH'', Path = ''/api/test/12'', BodyName = Some ''x''\<rparr>
                        = ''/api/test/'' @ seg \<and> Atoi seg = Some n)
              \<and> Method \<lparr>Method = ''PATCH'', Path = ''/api/test/12'', BodyName = Some ''x''\<rparr> \<noteq> ''GET''
              \<and> Method \<lparr>Method = ''PATCH'', Path = ''/api/test/12'', BodyName = Some ''x''\<rparr> \<noteq> ''PUT''
              \<and> Method \<lparr>Method = ''PATCH'', Path = ''/api/test/12'', BodyName = Some ''x''\<rparr> \<noteq> ''DELETE'')"
    using a by (intro disjI2 conjI exI [of _ "''12''"] exI [of _ 12]) simp_all
  have f: "Status newResponseWriter = None"
    by (simp add: newResponseWriter_def)
  show ?thesis
    using unrecognized_method [OF h f, of NewTestController
        "\<lparr>rows = [(12, Some ''a'')], nextId = 13\<rparr>"]
    by simp
qed

text \<open>
  Claim C8. On the collection path with a trailing slash, \<^verbatim>\<open>/api/test/\<close>, the router
  \<^verbatim>\<open>apiTestHandler\<close> dispatches as on \<^verbatim>\<open>/api/test\<close>: GET calls list-all and POST calls
  create, on either path. For every other method the router's answer is the same on both
  paths: the store is left alone, the body written is "Method not allowed" and a newline,
  and on a writer without a status yet the status is 405.
\<close>

theorem trailing_slash_dispatch:
  assumes "Path r = ''/api/test/''"
  shows "apiTestHandler controller w r db =
           (if Method r = ''GET'' then GetAll controller w r db
            else if Method r = ''POST'' then Create controller w r db
            else (http_Error w ''Method not allowed'' StatusMethodNotAllowed, db))
       \<and> apiTestHandler controller w (r\<lparr>Path := ''/api/test''\<rparr>) db =
           (if Method r = ''GET'' then GetAll controller w (r\<lparr>Path := ''/api/test''\<rparr>) db
            else if Method r = ''POST'' then Create controller w (r\<lparr>Path := ''/api/test''\<rparr>) db
            else (http_Error w ''Method not allowed'' StatusMethodNotAllowed, db))
       \<and> (Method r \<noteq> ''GET'' \<and> Method r \<noteq> ''POST'' \<longrightarrow>
            apiTestHandler controller w r db
              = apiTestHandler controller w (r\<lparr>Path := ''/api/test''\<rparr>) db
            \<and> snd (apiTestHandler controller w r db) = db
            \<and> Written (fst (apiTestHandler controller w r db))
                = Written w @ [Text (''Method not allowed'' @ [CHR 0x0A])]
            \<and> (Status w = None \<longrightarrow>
                 Status (fst (apiTestHandler controller w r db)) = Some StatusMethodNotAllowed
                 \<and> Status (fst (apiTestHandler controller w (r\<lparr>Path := ''/api/test''\<rparr>) db))
                     = Some StatusMethodNotAllowed))"
proof -
  have slash: "apiTestHandler controller w r db =
           (if Method r = ''GET'' then GetAll controller w r db
            else if Method r = ''POST'' then Create controller w r db
            else (http_Error w ''Method not allowed'' StatusMethodNotAllowed, db))"
    using assms by (simp add: route_collection)
  have plain: "apiTestHandler controller w (r\<lparr>Path := ''/api/test''\<rparr>) db =
           (if Method r = ''GET'' then GetAll controller w (r\<lparr>Path := ''/api/test''\<rparr>) db
            else if Method r = ''POST'' then Create controller w (r\<lparr>Path := ''/api/test''\<rparr>) db
            else (http_Error w ''Method not allowed'' StatusMethodNotAllowed, db))"
    by (simp add: route_collection)
  have other: "apiTestHandler controller w r db
              = apiTestHandler controller w (r\<lparr>Path := ''/api/test''\<rparr>) db
            \<and> snd (apiTestHandler controller w r db) = db
            \<and> Written (fst (apiTestHandler controller w r db))
                = Written w @ [Text (''Method not allowed'' @ [CHR 0x0A])]
            \<and> (Status w = None \<longrightarrow>
                 Status (fst (apiTestHandler controller w r db)) = Some StatusMethodNotAllowed
                 \<and> Status (fst (apiTestHandler controller w (r\<lparr>Path := ''/api/test''\<rparr>) db))
                     = Some StatusMethodNotAllowed)"
    if "Method r \<noteq> ''GET''" and "Method r \<noteq> ''POST''"
    using that by (simp add: slash plain Written_http_Error Status_http_Error)
  from slash plain other show ?thesis
    by blast
qed

theorem trailing_slash_dispatch_witness:
  "apiTestHandler NewTestController newResponseWriter
     \<lparr>Method = ''POST'', Path = ''/api/test/'', BodyName = Some ''x''\<rparr> emptyStore
   = ctl_Create newResponseWriter
       \<lparr>Method = ''POST'', Path = ''/api/test/'', BodyName = Some ''x''\<rparr> emptyStore
   \<and> apiTestHandler NewTestController newResponseWriter
     \<lparr>Method = ''POST'', Path = ''/api/test'', BodyName = Some ''x''\<rparr> emptyStore
   = ctl_Create newResponseWriter
       \<lparr>Method = ''POST'', Path = ''/api/test'', BodyName = Some ''x''\<rparr> emptyStore
   \<and> apiTestHandler NewTestController newResponseWriter
     \<lparr>Method = ''GET'', Path = ''/api/test/'', BodyName = None\<rparr> emptyStore
   = ctl_GetAll newResponseWriter
       \<lparr>Method = ''GET'', Path = ''/api/test/'', BodyName = None\<rparr> emptyStore
   \<and> Status (fst (apiTestHandler NewTestController newResponseWriter
         \<lparr>Method = ''DELETE'', Path = ''/api/test/'', BodyName = None\<rparr>
         \<lparr>rows = [(1, Some ''a'')], nextId = 2\<rparr>)) = Some StatusMethodNotAllowed
   \<and> Status (fst (apiTestHandler NewTestController newResponseWriter
         \<lparr>Method = ''DELETE'', Path = ''/api/test'', BodyName = None\<rparr>
         \<lparr>rows = [(1, Some ''a'')], nextId = 2\<rparr>)) = Some StatusMethodNotAllowed
   \<and> Written (fst (apiTestHandler NewTestController newResponseWriter
         \<lparr>Method = ''DELETE'', Path = ''/api/test/'', BodyName = None\<rparr>
         \<lparr>rows = [(1, Some ''a'')], nextId = 2\<rparr>))
       = [Text (''Method not allowed'' @ [CHR 0x0A])]
   \<and> snd (apiTestHandler NewTestController newResponseWriter
         \<lparr>Method = ''DELETE'', Path = ''/api/test/'', BodyName = None\<rparr>
         \<lparr>rows = [(1, Some ''a'')], nextId = 2\<rparr>) = \<lparr>rows = [(1, Some ''a'')], nextId = 2\<rparr>"
proof -
  have p: "Path \<lparr>Method = ''POST'', Path = ''/api/test/'', BodyName = Some ''x''\<rparr>
             = ''/api/test/''"
    by simp
  have g: "Path \<lparr>Method = ''GET'', Path = ''/api/test/'', BodyName = None\<rparr> = ''/api/test/''"
    by simp
  have d: "Path \<lparr>Method = ''DELETE'', Path = ''/api/test/'', BodyName = None\<rparr> = ''/api/test/''"
    by simp
  have f: "Status newResponseWriter = None" and e: "Written newResponseWriter = []"
    by (simp_all add: newResponseWriter_def)
  show ?thesis
    using trailing_slash_dispatch [OF p, of NewTestController newResponseWriter emptyStore]
      trailing_slash_dispatch [OF g, of NewTestController newResponseWriter emptyStore]
      trailing_slash_dispatch [OF d, of NewTestController newResponseWriter
        "\<lparr>rows = [(1, Some ''a'')], nextId = 2\<rparr>"] f e
    by (simp add: NewTestController_def Status_http_Error Written_http_Error)
qed

text \<open>
  Claim C9. For a request with method OPTIONS, whatever its path, the CORS middleware
  answers by itself: the result is the same for every wrapped handler, the store is
  unchanged, nothing is written to the body, and on a writer without a status yet the
  status is 200.
\<close>

theorem options_short_circuit:
  assumes "Method r = ''OPTIONS''"
  shows "corsMiddleware next w r db = corsMiddleware next' w r db
       \<and> snd (corsMiddleware next w r db) = db
       \<and> Written (fst (corsMiddleware next w r db)) = Written w
       \<and> (Status w = None \<longrightarrow> Status (fst (corsMiddleware next w r db)) = Some StatusOK)"
  using assms
  by (simp add: corsMiddleware_def Let_def Status_WriteHeader Status_Header_Set
      Written_WriteHeader Written_Header_Set)

theorem options_short_circuit_witness:
  "snd (corsMiddleware (apiTestHandler NewTestController) newResponseWriter
     \<lparr>Method = ''OPTIONS'', Path = ''/api/test/7'', BodyName = None\<rparr>
     \<lparr>rows = [(7, Some ''a'')], nextId = 8\<rparr>) = \<lparr>rows = [(7, Some ''a'')], nextId = 8\<rparr>
   \<and> Status (fst (corsMiddleware (apiTestHandler NewTestController) newResponseWriter
     \<lparr>Method = ''OPTIONS'', Path = ''/api/test/7'', BodyName = None\<rparr>
     \<lparr>rows = [(7, Some ''a'')], nextId = 8\<rparr>)) = Some StatusOK"
proof -
  have m: "Method \<lparr>Method = ''OPTIONS'', Path = ''/api/test/7'', BodyName = None\<rparr>
             = ''OPTIONS''"
    by simp
  have f: "Status newResponseWriter = None"
    by (simp add: newResponseWriter_def)
  show ?thesis
    using options_short_circuit [OF m, of "apiTestHandler NewTestController"
        newResponseWriter "\<lparr>rows = [(7, Some ''a'')], nextId = 8\<rparr>"] f
    by simp
qed

text \<open>
  Claim C10. When the segment after \<^verbatim>\<open>/api/test/\<close> is accepted by \<^verbatim>\<open>strconv.Atoi\<close>
  as the integer \<open>n\<close> (zero and negative values included, as the instances below with
  \<^verbatim>\<open>-5\<close> and \<^verbatim>\<open>0\<close> show), the router does not answer "Invalid ID": GET goes to get-by-id,
  PUT to update and DELETE to delete, each with \<open>n\<close>; any other method gets 405.
\<close>

theorem integer_segment_dispatch:
  assumes "Path r = ''/api/test/'' @ seg" and "Atoi seg = Some n"
  shows "apiTestHandler controller w r db =
           (if Method r = ''GET'' then GetById controller w r n db
            else if Method r = ''PUT'' then Update controller w r n db
            else if Method r = ''DELETE'' then Delete controller w r n db
            else (http_Error w ''Method not allowed'' StatusMethodNotAllowed, db))"
  using assms by (rule route_integer_segment)

theorem integer_segment_dispatch_witness:
  "Atoi ''-5'' = Some (- 5) \<and> Atoi ''0'' = Some 0
   \<and> apiTestHandler NewTestController newResponseWriter
        \<lparr>Method = ''GET'', Path = ''/api/test/-5'', BodyName = None\<rparr> emptyStore
      = ctl_GetById newResponseWriter
        \<lparr>Method = ''GET'', Path = ''/api/test/-5'', BodyName = None\<rparr> (- 5) emptyStore
   \<and> apiTestHandler NewTestController newResponseWriter
        \<lparr>Method = ''DELETE'', Path = ''/api/test/0'', BodyName = None\<rparr> emptyStore
      = ctl_Delete newResponseWriter
        \<lparr>Method = ''DELETE'', Path = ''/api/test/0'', BodyName = None\<rparr> 0 emptyStore"
proof -
  have a5: "Atoi ''-5'' = Some (- 5)"
    by (simp add: Atoi_def isDigit_def digitsValue_def)
  have a0: "Atoi ''0'' = Some 0"
    by (simp add: Atoi_def isDigit_def digitsValue_def)
  have p5: "Path \<lparr>Method = ''GET'', Path = ''/api/test/-5'', BodyName = None\<rparr>
             = ''/api/test/'' @ ''-5''"
    by simp
  have p0: "Path \<lparr>Method = ''DELETE'', Path = ''/api/test/0'', BodyName = None\<rparr>
             = ''/api/test/'' @ ''0''"
    by simp
  show ?thesis
    using a5 a0
      integer_segment_dispatch [OF p5 a5, of NewTestController newResponseWriter emptyStore]
      integer_segment_dispatch [OF p0 a0, of NewTestController newResponseWriter emptyStore]
    by (simp add: NewTestController_def)
qed

section \<open>Properties of the resource-access component\<close>

text \<open>
  Claim C1. In a store whose identifiers are unique and were drawn from the sequence
  (\<open>storeOK\<close>, which holds of every store reached from the empty table, see
  \<open>storeOK_reachable\<close>), a create request with a non-empty name is answered with status
  201 and a body that is the record with the identifier \<open>nextId db\<close> and the submitted
  name. No stored record carried that identifier before; the new store holds it with the
  submitted name. A get-by-id with that identifier on the resulting store answers 200 and
  writes the record with that identifier and the submitted name, leaving the store as it
  is.
\<close>

theorem create_then_get:
  assumes "storeOK db" and "BodyName r = Some name" and "name \<noteq> []"
  shows "fst (ctl_Create w r db) = writeJSON StatusCreated (Project (nextId db) (Some name)) w
       \<and> Written (fst (ctl_Create w r db)) = Written w @ [Project (nextId db) (Some name)]
       \<and> (Status w = None \<longrightarrow> Status (fst (ctl_Create w r db)) = Some StatusCreated)
       \<and> nextId db \<notin> ids db
       \<and> nextId db \<in> ids (snd (ctl_Create w r db))
       \<and> lookup (snd (ctl_Create w r db)) (nextId db) = Some (Some name)
       \<and> ctl_GetById w' r' (nextId db) (snd (ctl_Create w r db))
           = (writeJSON StatusOK (Project (nextId db) (Some name)) w', snd (ctl_Create w r db))
       \<and> Written (fst (ctl_GetById w' r' (nextId db) (snd (ctl_Create w r db))))
           = Written w' @ [Project (nextId db) (Some name)]
       \<and> (Status w' = None \<longrightarrow>
            Status (fst (ctl_GetById w' r' (nextId db) (snd (ctl_Create w r db)))) = Some StatusOK)"
proof -
  let ?i = "nextId db"
  have fresh: "?i \<notin> ids db"
    using assms(1) by (rule storeOK_fresh)
  have created: "ctl_Create w r db =
      (writeJSON StatusCreated (Project ?i (Some name)) w,
       db\<lparr>rows := rows db @ [(?i, Some name)], nextId := ?i + 1\<rparr>)"
    using assms(2,3) by (simp add: ctl_Create_def Let_def)
  have no_row: "\<forall>row \<in> set (rows db). \<not> fst row = ?i"
    using fresh by (force simp add: ids_def)
  then have found: "find (\<lambda>row. fst row = ?i) (rows db @ [(?i, Some name)]) = Some (?i, Some name)"
    by (simp add: find_snoc_absent)
  have "map_of (rows db) ?i = None"
    using fresh by (simp add: ids_def map_of_eq_None_iff)
  then have stored: "lookup (snd (ctl_Create w r db)) ?i = Some (Some name)"
    by (simp add: created lookup_def map_add_def)
  have got: "ctl_GetById w' r' ?i (snd (ctl_Create w r db))
           = (writeJSON StatusOK (Project ?i (Some name)) w', snd (ctl_Create w r db))"
    by (simp add: created ctl_GetById_def found)
  have member: "?i \<in> ids (snd (ctl_Create w r db))"
    by (simp add: created ids_def)
  have body: "Written (fst (ctl_Create w r db)) = Written w @ [Project ?i (Some name)]"
    by (simp add: created Written_writeJSON)
  have body': "Written (fst (ctl_GetById w' r' ?i (snd (ctl_Create w r db))))
           = Written w' @ [Project ?i (Some name)]"
    by (simp add: got Written_writeJSON)
  have status: "Status w = None \<longrightarrow> Status (fst (ctl_Create w r db)) = Some StatusCreated"
    by (simp add: created Status_writeJSON)
  have status': "Status w' = None \<longrightarrow>
            Status (fst (ctl_GetById w' r' ?i (snd (ctl_Create w r db)))) = Some StatusOK"
    by (simp add: got Status_writeJSON)
  have first: "fst (ctl_Create w r db) = writeJSON StatusCreated (Project ?i (Some name)) w"
    by (simp add: created)
  from first body status fresh member stored got body' status' show ?thesis
    by blast
qed

theorem create_then_get_witness:
  "nextId \<lparr>rows = [(1, Some ''a'')], nextId = 2\<rparr> \<notin> ids \<lparr>rows = [(1, Some ''a'')], nextId = 2\<rparr>
   \<and> Status (fst (ctl_Create newResponseWriter
         \<lparr>Method = ''POST'', Path = ''/api/test'', BodyName = Some ''b''\<rparr>
         \<lparr>rows = [(1, Some ''a'')], nextId = 2\<rparr>)) = Some StatusCreated
   \<and> Written (fst (ctl_Create newResponseWriter
         \<lparr>Method = ''POST'', Path = ''/api/test'', BodyName = Some ''b''\<rparr>
         \<lparr>rows = [(1, Some ''a'')], nextId = 2\<rparr>)) = [Project 2 (Some ''b'')]
   \<and> Status (fst (ctl_GetById newResponseWriter
         \<lparr>Method = ''GET'', Path = ''/api/test/2'', BodyName = None\<rparr> 2
         (snd (ctl_Create newResponseWriter
           \<lparr>Method = ''POST'', Path = ''/api/test'', BodyName = Some ''b''\<rparr>
           \<lparr>rows = [(1, Some ''a'')], nextId = 2\<rparr>)))) = Some StatusOK
   \<and> Written (fst (ctl_GetById newResponseWriter
         \<lparr>Method = ''GET'', Path = ''/api/test/2'', BodyName = None\<rparr> 2
         (snd (ctl_Create newResponseWriter
           \<lparr>Method = ''POST'', Path = ''/api/test'', BodyName = Some ''b''\<rparr>
           \<lparr>rows = [(1, Some ''a'')], nextId = 2\<rparr>)))) = [Project 2 (Some ''b'')]"
proof -
  have ok: "storeOK \<lparr>rows = [(1, Some ''a'')], nextId = 2\<rparr>"
    by (simp add: storeOK_def)
  have b: "BodyName \<lparr>Method = ''POST'', Path = ''/api/test'', BodyName = Some ''b''\<rparr> = Some ''b''"
    by simp
  have n: "''b'' \<noteq> []"
    by simp
  have f: "Status newResponseWriter = None" and e: "Written newResponseWriter = []"
    by (simp_all add: newResponseWriter_def)
  show ?thesis
    using create_then_get [OF ok b n, of newResponseWriter newResponseWriter
        "\<lparr>Method = ''GET'', Path = ''/api/test/2'', BodyName = None\<rparr>"] f e
    by (simp add: Status_writeJSON Written_writeJSON)
qed

text \<open>
  Claim C2. A create request whose name is missing or empty is answered with status 400,
  and the store is returned unchanged: no record is persisted.
\<close>

theorem create_without_name:
  assumes "BodyName r = None \<or> BodyName r = Some []"
  shows "ctl_Create w r db = (http_Error w ''Name is required'' StatusBadRequest, db)
       \<and> snd (ctl_Create w r db) = db
       \<and> (Status w = None \<longrightarrow> Status (fst (ctl_Create w r db)) = Some StatusBadRequest)"
  using assms by (auto simp add: ctl_Create_def Status_http_Error)

theorem create_without_name_witness:
  "snd (ctl_Create newResponseWriter
         \<lparr>Method = ''POST'', Path = ''/api/test'', BodyName = Some []\<rparr>
         \<lparr>rows = [(1, Some ''a'')], nextId = 2\<rparr>) = \<lparr>rows = [(1, Some ''a'')], nextId = 2\<rparr>
   \<and> Status (fst (ctl_Create newResponseWriter
         \<lparr>Method = ''POST'', Path = ''/api/test'', BodyName = Some []\<rparr>
         \<lparr>rows = [(1, Some ''a'')], nextId = 2\<rparr>)) = Some StatusBadRequest
   \<and> snd (ctl_Create newResponseWriter
         \<lparr>Method = ''POST'', Path = ''/api/test'', BodyName = None\<rparr> emptyStore) = emptyStore
   \<and> Status (fst (ctl_Create newResponseWriter
         \<lparr>Method = ''POST'', Path = ''/api/test'', BodyName = None\<rparr> emptyStore))
       = Some StatusBadRequest"
proof -
  have e: "BodyName \<lparr>Method = ''POST'', Path = ''/api/test'', BodyName = Some []\<rparr> = None
         \<or> BodyName \<lparr>Method = ''POST'', Path = ''/api/test'', BodyName = Some []\<rparr> = Some []"
    by simp
  have m: "BodyName \<lparr>Method = ''POST'', Path = ''/api/test'', BodyName = None\<rparr> = None
         \<or> BodyName \<lparr>Method = ''POST'', Path = ''/api/test'', BodyName = None\<rparr> = Some []"
    by simp
  have f: "Status newResponseWriter = None"
    by (simp add: newResponseWriter_def)
  show ?thesis
    using create_without_name [OF e, of newResponseWriter "\<lparr>rows = [(1, Some ''a'')], nextId = 2\<rparr>"]
      create_without_name [OF m, of newResponseWriter emptyStore] f
    by (simp add: Status_http_Error)
qed

text \<open>
  Claim C3. An update on an identifier with no stored record answers 404 and leaves the
  store unchanged. An update on a stored identifier with a submitted name answers 200;
  afterwards the record under that identifier has the submitted name, the identifiers of
  the table are the same as before, row by row, and every record with another identifier
  is unchanged.
\<close>

theorem update_frame:
  "(i \<notin> ids db \<longrightarrow>
      snd (ctl_Update w r i db) = db
      \<and> (Status w = None \<longrightarrow> Status (fst (ctl_Update w r i db)) = Some StatusNotFound))
   \<and> (i \<in> ids db \<and> BodyName r = Some name \<longrightarrow>
      lookup (snd (ctl_Update w r i db)) i = Some (Some name)
      \<and> (\<forall>row \<in> set (rows (snd (ctl_Update w r i db))). fst row = i \<longrightarrow> snd row = Some name)
      \<and> map fst (rows (snd (ctl_Update w r i db))) = map fst (rows db)
      \<and> filter (\<lambda>row. fst row \<noteq> i) (rows (snd (ctl_Update w r i db)))
          = filter (\<lambda>row. fst row \<noteq> i) (rows db)
      \<and> (\<forall>j. j \<noteq> i \<longrightarrow> lookup (snd (ctl_Update w r i db)) j = lookup db j)
      \<and> (Status w = None \<longrightarrow> Status (fst (ctl_Update w r i db)) = Some StatusOK))"
proof (intro conjI impI)
  assume "i \<notin> ids db"
  then show "snd (ctl_Update w r i db) = db"
    by (simp add: ctl_Update_def list_ex_ids)
next
  assume "i \<notin> ids db" and "Status w = None"
  then show "Status (fst (ctl_Update w r i db)) = Some StatusNotFound"
    by (simp add: ctl_Update_def list_ex_ids Status_http_Error)
next
  assume h: "i \<in> ids db \<and> BodyName r = Some name"
  then have upd: "ctl_Update w r i db =
      (writeJSON StatusOK (Project i (Some name)) w,
       db\<lparr>rows := map (\<lambda>row. if fst row = i then (i, Some name) else row) (rows db)\<rparr>)"
    by (simp add: ctl_Update_def list_ex_ids)
  from h show "lookup (snd (ctl_Update w r i db)) i = Some (Some name)"
    by (simp add: upd lookup_def ids_def map_of_update_same)
  show "\<forall>row \<in> set (rows (snd (ctl_Update w r i db))). fst row = i \<longrightarrow> snd row = Some name"
    by (auto simp add: upd)
  show "map fst (rows (snd (ctl_Update w r i db))) = map fst (rows db)"
    by (simp add: upd map_fst_update)
  show "filter (\<lambda>row. fst row \<noteq> i) (rows (snd (ctl_Update w r i db)))
          = filter (\<lambda>row. fst row \<noteq> i) (rows db)"
    by (simp add: upd filter_other_update)
  show "\<forall>j. j \<noteq> i \<longrightarrow> lookup (snd (ctl_Update w r i db)) j = lookup db j"
    by (simp add: upd lookup_def map_of_update_other)
  show "Status (fst (ctl_Update w r i db)) = Some StatusOK" if "Status w = None"
    using that by (simp add: upd Status_writeJSON)
qed

theorem update_frame_witness:
  "snd (ctl_Update newResponseWriter
         \<lparr>Method = ''PUT'', Path = ''/api/test/9'', BodyName = Some ''z''\<rparr> 9
         \<lparr>rows = [(1, Some ''a''), (2, Some ''b'')], nextId = 3\<rparr>)
     = \<lparr>rows = [(1, Some ''a''), (2, Some ''b'')], nextId = 3\<rparr>
   \<and> Status (fst (ctl_Update newResponseWriter
         \<lparr>Method = ''PUT'', Path = ''/api/test/9'', BodyName = Some ''z''\<rparr> 9
         \<lparr>rows = [(1, Some ''a''), (2, Some ''b'')], nextId = 3\<rparr>)) = Some StatusNotFound
   \<and> lookup (snd (ctl_Update newResponseWriter
         \<lparr>Method = ''PUT'', Path = ''/api/test/2'', BodyName = Some ''z''\<rparr> 2
         \<lparr>rows = [(1, Some ''a''), (2, Some ''b'')], nextId = 3\<rparr>)) 2 = Some (Some ''z'')
   \<and> lookup (snd (ctl_Update newResponseWriter
         \<lparr>Method = ''PUT'', Path = ''/api/test/2'', BodyName = Some ''z''\<rparr> 2
         \<lparr>rows = [(1, Some ''a''), (2, Some ''b'')], nextId = 3\<rparr>)) 1 = Some (Some ''a'')"
proof -
  have f: "Status newResponseWriter = None"
    by (simp add: newResponseWriter_def)
  have absent: "9 \<notin> ids \<lparr>rows = [(1, Some ''a''), (2, Some ''b'')], nextId = 3\<rparr>"
    by (simp add: ids_def)
  have present: "2 \<in> ids \<lparr>rows = [(1, Some ''a''), (2, Some ''b'')], nextId = 3\<rparr>"
    by (simp add: ids_def)
  have old: "lookup \<lparr>rows = [(1, Some ''a''), (2, Some ''b'')], nextId = 3\<rparr> 1 = Some (Some ''a'')"
    by (simp add: lookup_def)
  show ?thesis
    using update_frame [of 9 "\<lparr>rows = [(1, Some ''a''), (2, Some ''b'')], nextId = 3\<rparr>"
        newResponseWriter "\<lparr>Method = ''PUT'', Path = ''/api/test/9'', BodyName = Some ''z''\<rparr>" "''z''"]
      update_frame [of 2 "\<lparr>rows = [(1, Some ''a''), (2, Some ''b'')], nextId = 3\<rparr>"
        newResponseWriter "\<lparr>Method = ''PUT'', Path = ''/api/test/2'', BodyName = Some ''z''\<rparr>" "''z''"]
      f absent present old
    by simp
qed

text \<open>
  Claim C4. Get-by-id on an identifier with no stored record answers 404 and leaves the
  store alone. When a delete has answered 200, the identifier was stored before, it is
  not stored afterwards, and a get-by-id on it in the resulting store answers 404.
\<close>

theorem get_absent_not_found:
  assumes "Status w = None" and "Status w' = None"
  shows "(i \<notin> ids db \<longrightarrow>
            Status (fst (ctl_GetById w r i db)) = Some StatusNotFound
            \<and> snd (ctl_GetById w r i db) = db)
       \<and> (Status (fst (ctl_Delete w r i db)) = Some StatusOK \<longrightarrow>
            i \<in> ids db
            \<and> i \<notin> ids (snd (ctl_Delete w r i db))
            \<and> Status (fst (ctl_GetById w' r' i (snd (ctl_Delete w r i db)))) = Some StatusNotFound)"
proof -
  have absent: "Status (fst (ctl_GetById v q i d)) = Some StatusNotFound \<and> snd (ctl_GetById v q i d) = d"
    if "i \<notin> ids d" and "Status v = None" for v q d
    using that by (simp add: ctl_GetById_def find_absent Status_http_Error)
  have gone: "i \<notin> ids (snd (ctl_Delete w r i db))"
    by (auto simp add: ctl_Delete_def ids_def list_ex_iff)
  have ok: "i \<in> ids db" if "Status (fst (ctl_Delete w r i db)) = Some StatusOK"
    using that assms(1)
    by (auto simp add: ctl_Delete_def list_ex_ids Status_http_Error split: if_splits)
  show ?thesis
    using absent [of db w r] absent [OF gone, of w' r'] ok gone assms by blast
qed

theorem get_absent_not_found_witness:
  "Status (fst (ctl_GetById newResponseWriter
         \<lparr>Method = ''GET'', Path = ''/api/test/5'', BodyName = None\<rparr> 5
         \<lparr>rows = [(1, Some ''a'')], nextId = 2\<rparr>)) = Some StatusNotFound
   \<and> Status (fst (ctl_Delete newResponseWriter
         \<lparr>Method = ''DELETE'', Path = ''/api/test/1'', BodyName = None\<rparr> 1
         \<lparr>rows = [(1, Some ''a'')], nextId = 2\<rparr>)) = Some StatusOK
   \<and> Status (fst (ctl_GetById newResponseWriter
         \<lparr>Method = ''GET'', Path = ''/api/test/1'', BodyName = None\<rparr> 1
         (snd (ctl_Delete newResponseWriter
           \<lparr>Method = ''DELETE'', Path = ''/api/test/1'', BodyName = None\<rparr> 1
           \<lparr>rows = [(1, Some ''a'')], nextId = 2\<rparr>)))) = Some StatusNotFound"
proof -
  have f: "Status newResponseWriter = None"
    by (simp add: newResponseWriter_def)
  have absent: "5 \<notin> ids \<lparr>rows = [(1, Some ''a'')], nextId = 2\<rparr>"
    by (simp add: ids_def)
  have deleted: "Status (fst (ctl_Delete newResponseWriter
         \<lparr>Method = ''DELETE'', Path = ''/api/test/1'', BodyName = None\<rparr> 1
         \<lparr>rows = [(1, Some ''a'')], nextId = 2\<rparr>)) = Some StatusOK"
    by (simp add: ctl_Delete_def f Status_writeJSON)
  show ?thesis
    using get_absent_not_found [OF f f, of 5 "\<lparr>rows = [(1, Some ''a'')], nextId = 2\<rparr>"
        "\<lparr>Method = ''GET'', Path = ''/api/test/5'', BodyName = None\<rparr>"]
      get_absent_not_found [OF f f, of 1 "\<lparr>rows = [(1, Some ''a'')], nextId = 2\<rparr>"
        "\<lparr>Method = ''DELETE'', Path = ''/api/test/1'', BodyName = None\<rparr>"
        "\<lparr>Method = ''GET'', Path = ''/api/test/1'', BodyName = None\<rparr>"]
      absent deleted
    by simp
qed

text \<open>
  Claim C5. From any store in which every record has a non-null name, each of the five
  operations (list, get-by-id, create, update, delete) returns a store in which every
  record has a non-null name. The empty store satisfies the invariant
  (\<open>namesNonNull_emptyStore\<close>), and so does every store reached from it through the
  served handler (\<open>namesNonNull_reachable\<close>).
\<close>

theorem names_non_null_preserved:
  assumes "namesNonNull db"
  shows "namesNonNull (snd (ctl_GetAll w r db))
       \<and> namesNonNull (snd (ctl_GetById w r i db))
       \<and> namesNonNull (snd (ctl_Create w r db))
       \<and> namesNonNull (snd (ctl_Update w r i db))
       \<and> namesNonNull (snd (ctl_Delete w r i db))"
  using assms
  by (simp add: namesNonNull_GetAll namesNonNull_GetById namesNonNull_Create
      namesNonNull_Update namesNonNull_Delete)

theorem names_non_null_preserved_witness:
  "namesNonNull \<lparr>rows = [(1, Some ''a'')], nextId = 2\<rparr>
   \<and> namesNonNull (snd (ctl_Create newResponseWriter
         \<lparr>Method = ''POST'', Path = ''/api/test'', BodyName = Some ''b''\<rparr>
         \<lparr>rows = [(1, Some ''a'')], nextId = 2\<rparr>))
   \<and> namesNonNull (snd (ctl_Update newResponseWriter
         \<lparr>Method = ''POST'', Path = ''/api/test'', BodyName = Some ''b''\<rparr> 1
         \<lparr>rows = [(1, Some ''a'')], nextId = 2\<rparr>))
   \<and> namesNonNull (snd (ctl_Delete newResponseWriter
         \<lparr>Method = ''POST'', Path = ''/api/test'', BodyName = Some ''b''\<rparr> 1
         \<lparr>rows = [(1, Some ''a'')], nextId = 2\<rparr>))"
proof -
  have inv: "namesNonNull \<lparr>rows = [(1, Some ''a'')], nextId = 2\<rparr>"
    by (simp add: namesNonNull_def)
  show ?thesis
    using inv names_non_null_preserved [OF inv, of newResponseWriter
        "\<lparr>Method = ''POST'', Path = ''/api/test'', BodyName = Some ''b''\<rparr>" 1]
    by simp
qed

end
